theory Spec2Isabelle
  imports Main
begin

section \<open>Strings as the program sees them\<close>

text \<open>
  A Go \<open>string\<close> is a sequence of bytes, modelled as \<^typ>\<open>string\<close> (a list of 8-bit
  \<^typ>\<open>char\<close>). The program calls four functions of package \<open>strings\<close>:
  \<open>Split\<close>, \<open>ReplaceAll\<close>, \<open>TrimSpace\<close> and \<open>ToLower\<close>. The first two are always
  called with the one-byte strings \<open>"\n"\<close> and \<open>" "\<close>, so the separator and the replaced
  text are a single \<^typ>\<open>char\<close> here.
\<close>

text \<open>\<open>strings.Split(s, sep)\<close> for a one-byte \<open>sep\<close>: the text up to the first
  separator, then the pieces of what follows it; a text without separator is its only
  piece, so the slice is never empty.\<close>

function Split :: "string \<Rightarrow> char \<Rightarrow> string list" where
  "Split s sep =
     (case dropWhile (\<lambda>c. c \<noteq> sep) s of
        [] \<Rightarrow> [s]
      | c # rest \<Rightarrow> takeWhile (\<lambda>c. c \<noteq> sep) s # Split rest sep)"
  by pat_completeness auto
termination
proof (relation "measure (\<lambda>(s, sep). length s)")
  show "wf (measure (\<lambda>(s, sep). length s))"
    by simp
next
  fix s :: string and sep c :: char and rest :: string
  assume "dropWhile (\<lambda>c. c \<noteq> sep) s = c # rest"
  then have "Suc (length rest) \<le> length s"
    using length_dropWhile_le [of "\<lambda>c. c \<noteq> sep" s] by simp
  then show "((rest, sep), (s, sep)) \<in> measure (\<lambda>(s, sep). length s)"
    by simp
qed

declare Split.simps [simp del]

text \<open>\<open>strings.ReplaceAll(s, old, new)\<close> for a one-byte \<open>old\<close>: every occurrence, left to
  right.\<close>

fun ReplaceAll :: "string \<Rightarrow> char \<Rightarrow> string \<Rightarrow> string" where
  "ReplaceAll [] old new = []"
| "ReplaceAll (c # cs) old new =
     (if c = old then new @ ReplaceAll cs old new else c # ReplaceAll cs old new)"

text \<open>
  \<open>strings.TrimSpace\<close> removes leading and trailing white space as \<open>unicode.IsSpace\<close>
  defines it: the six ASCII characters tab, line feed, vertical tab, form feed, carriage
  return and space, and the code points U+0085, U+00A0, U+1680, U+2000 to U+200A, U+2028,
  U+2029, U+202F, U+205F and U+3000. On bytes, a white-space rune at either end of the
  string is one of the UTF-8 encodings below; a byte that does not decode is not white
  space and stops the trimming.
\<close>

definition spaceRunes :: "string list" where
  "spaceRunes =
     [[CHR 0x09], [CHR 0x0A], [CHR 0x0B], [CHR 0x0C], [CHR 0x0D], [CHR 0x20],
      [CHR 0xC2, CHR 0x85], [CHR 0xC2, CHR 0xA0],
      [CHR 0xE1, CHR 0x9A, CHR 0x80],
      [CHR 0xE2, CHR 0x80, CHR 0x80], [CHR 0xE2, CHR 0x80, CHR 0x81],
      [CHR 0xE2, CHR 0x80, CHR 0x82], [CHR 0xE2, CHR 0x80, CHR 0x83],
      [CHR 0xE2, CHR 0x80, CHR 0x84], [CHR 0xE2, CHR 0x80, CHR 0x85],
      [CHR 0xE2, CHR 0x80, CHR 0x86], [CHR 0xE2, CHR 0x80, CHR 0x87],
      [CHR 0xE2, CHR 0x80, CHR 0x88], [CHR 0xE2, CHR 0x80, CHR 0x89],
      [CHR 0xE2, CHR 0x80, CHR 0x8A],
      [CHR 0xE2, CHR 0x80, CHR 0xA8], [CHR 0xE2, CHR 0x80, CHR 0xA9],
      [CHR 0xE2, CHR 0x80, CHR 0xAF], [CHR 0xE2, CHR 0x81, CHR 0x9F],
      [CHR 0xE3, CHR 0x80, CHR 0x80]]"

text \<open>The first of the sequences \<open>ws\<close> that \<open>s\<close> starts with, if any.\<close>

fun leading :: "string list \<Rightarrow> string \<Rightarrow> string option" where
  "leading [] s = None"
| "leading (w # ws) s = (if take (length w) s = w then Some w else leading ws s)"

text \<open>Drop sequences of \<open>ws\<close> from the front for as long as there is one; the first
  argument bounds the number of rounds and is the length of the string where it is called.\<close>

fun trimFront :: "nat \<Rightarrow> string list \<Rightarrow> string \<Rightarrow> string" where
  "trimFront 0 ws s = s"
| "trimFront (Suc n) ws s =
     (case leading ws s of
        None \<Rightarrow> s
      | Some w \<Rightarrow> if w = [] then s else trimFront n ws (drop (length w) s))"

definition TrimLeft :: "string \<Rightarrow> string" where
  "TrimLeft s = trimFront (length s) spaceRunes s"

definition TrimRight :: "string \<Rightarrow> string" where
  "TrimRight s = rev (trimFront (length s) (map rev spaceRunes) (rev s))"

definition TrimSpace :: "string \<Rightarrow> string" where
  "TrimSpace s = TrimRight (TrimLeft s)"

section \<open>Regular expressions\<close>

text \<open>
  The two patterns of \<open>mapSVG\<close> use a literal, the class \<open>\d\<close> (the ASCII digits in Go's
  RE2 syntax), the class \<open>[01]\<close>, concatenation, \<open>?\<close> and the counted repetition
  \<open>{n}\<close> and \<open>{n,m}\<close>.
\<close>

datatype regexp =
    Eps
  | Lit char
  | Digit
  | OneOf "char list"
  | Cat regexp regexp
  | Opt regexp
  | Rep regexp nat nat

definition isDigit :: "char \<Rightarrow> bool" where
  "isDigit c = (c \<in> set ''0123456789'')"

text \<open>\<open>rep f lo hi s\<close>: what is left of \<open>s\<close> after between \<open>lo\<close> and \<open>hi\<close> successive
  matches of \<open>f\<close>.\<close>

primrec rep :: "(string \<Rightarrow> string list) \<Rightarrow> nat \<Rightarrow> nat \<Rightarrow> string \<Rightarrow> string list" where
  "rep f lo 0 s = (if lo = 0 then [s] else [])"
| "rep f lo (Suc hi) s =
     (if lo = 0 then [s] else []) @ concat (map (rep f (lo - 1) hi) (f s))"

text \<open>\<open>run r s\<close>: every remainder of \<open>s\<close> after a prefix that \<open>r\<close> matches.\<close>

primrec run :: "regexp \<Rightarrow> string \<Rightarrow> string list" where
  "run Eps s = [s]"
| "run (Lit c) s = (case s of [] \<Rightarrow> [] | x # xs \<Rightarrow> if x = c then [xs] else [])"
| "run Digit s = (case s of [] \<Rightarrow> [] | x # xs \<Rightarrow> if isDigit x then [xs] else [])"
| "run (OneOf cs) s = (case s of [] \<Rightarrow> [] | x # xs \<Rightarrow> if x \<in> set cs then [xs] else [])"
| "run (Cat a b) s = concat (map (run b) (run a s))"
| "run (Opt a) s = run a s @ [s]"
| "run (Rep a lo hi) s = rep (run a) lo hi s"

text \<open>
  \<open>regexp.MatchString\<close> reports whether the text contains a match. Both patterns start
  with \<open>^\<close> and end with \<open>$\<close> and set no flag, so a match begins at the start of the text
  and ends at its end: the pattern has to match the whole text.
\<close>

definition MatchString :: "regexp \<Rightarrow> string \<Rightarrow> bool" where
  "MatchString r s = ([] \<in> set (run r s))"

definition seq :: "regexp list \<Rightarrow> regexp" where
  "seq rs = foldr Cat rs Eps"

text \<open>\<open>(\.\d{0,10})?\<close>\<close>

definition fractionRegexp :: regexp where
  "fractionRegexp = Opt (seq [Lit (CHR ''.''), Rep Digit 0 10])"

text \<open>\<open>^\-?\d{2}(\.\d{0,10})?,\d{3}(\.\d{0,10})?$\<close>\<close>

definition noVoucherRegexp :: regexp where
  "noVoucherRegexp =
     seq [Opt (Lit (CHR ''-'')), Rep Digit 2 2, fractionRegexp, Lit (CHR '',''),
          Rep Digit 3 3, fractionRegexp]"

text \<open>\<open>^\-?\d{2}(\.\d{0,10})?,\d{3}(\.\d{0,10})?,[01]$\<close>\<close>

definition voucherRegexp :: regexp where
  "voucherRegexp =
     seq [Opt (Lit (CHR ''-'')), Rep Digit 2 2, fractionRegexp, Lit (CHR '',''),
          Rep Digit 3 3, fractionRegexp, Lit (CHR '',''), OneOf ''01'']"

section \<open>Classification of the first line\<close>

datatype coordinateFormat = NoVoucher | Voucher | Invalid

text \<open>The decision of the \<open>if\<close> chain of \<open>mapSVG\<close> (lines 60 to 73): both patterns
  are evaluated, the voucher pattern is looked at first.\<close>

definition classify :: "string \<Rightarrow> coordinateFormat" where
  "classify firstRecord =
     (let voucherPattern = MatchString voucherRegexp firstRecord;
          noVoucherPattern = MatchString noVoucherRegexp firstRecord
      in if voucherPattern then Voucher
         else if noVoucherPattern then NoVoucher
         else Invalid)"

section \<open>The coordinate grammar of the specification\<close>

text \<open>
  The two line grammars as the specification writes them:
  \<^verbatim>\<open>voucher_line := "-"? digit{2} ("." digit{0,10})? "," digit{3} ("." digit{0,10})? "," ("0"|"1")\<close>
  \<^verbatim>\<open>plain_line := "-"? digit{2} ("." digit{0,10})? "," digit{3} ("." digit{0,10})?\<close>
  They are stated on the parts a line splits into, independently of the matcher above.
\<close>

definition digits :: "nat \<Rightarrow> nat \<Rightarrow> string \<Rightarrow> bool" where
  "digits lo hi ds = (lo \<le> length ds \<and> length ds \<le> hi \<and> list_all isDigit ds)"

definition fraction :: "string \<Rightarrow> bool" where
  "fraction f = (f = [] \<or> (\<exists>ds. f = CHR ''.'' # ds \<and> digits 0 10 ds))"

definition sign :: "string \<Rightarrow> bool" where
  "sign sg = (sg = [] \<or> sg = ''-'')"

definition plain_line :: "string \<Rightarrow> bool" where
  "plain_line s =
     (\<exists>sg la lf lo lof. s = sg @ la @ lf @ '','' @ lo @ lof \<and>
        sign sg \<and> digits 2 2 la \<and> fraction lf \<and> digits 3 3 lo \<and> fraction lof)"

definition voucher_line :: "string \<Rightarrow> bool" where
  "voucher_line s =
     (\<exists>sg la lf lo lof fl. s = sg @ la @ lf @ '','' @ lo @ lof @ '','' @ fl \<and>
        sign sg \<and> digits 2 2 la \<and> fraction lf \<and> digits 3 3 lo \<and> fraction lof \<and>
        (fl = ''0'' \<or> fl = ''1''))"

text \<open>The language of a pattern, used to relate the matcher to the grammar.\<close>

definition conc :: "string set \<Rightarrow> string set \<Rightarrow> string set" where
  "conc A B = {u @ v | u v. u \<in> A \<and> v \<in> B}"

primrec langrep :: "string set \<Rightarrow> nat \<Rightarrow> nat \<Rightarrow> string set" where
  "langrep L lo 0 = (if lo = 0 then {[]} else {})"
| "langrep L lo (Suc hi) = (if lo = 0 then {[]} else {}) \<union> conc L (langrep L (lo - 1) hi)"

primrec lang :: "regexp \<Rightarrow> string set" where
  "lang Eps = {[]}"
| "lang (Lit c) = {[c]}"
| "lang Digit = {[c] | c. isDigit c}"
| "lang (OneOf cs) = {[c] | c. c \<in> set cs}"
| "lang (Cat a b) = conc (lang a) (lang b)"
| "lang (Opt a) = insert [] (lang a)"
| "lang (Rep a lo hi) = langrep (lang a) lo hi"

section \<open>The rendering engine\<close>

text \<open>
  Package \<open>tasmapper\<close> is an external library: two constructors of a record list, from
  the raw text and the taxon name, and four entry points that write a map of a record list
  to the buffer they are given. It is a parameter of the model; its functions are taken
  as total, as the specification takes them, and an entry point as the text it writes.
  The calls the program makes are recorded in the order they happen.
\<close>

record 'rl mapper =
  newVoucherRecordList :: "string \<Rightarrow> string \<Rightarrow> 'rl"
  newRecordList :: "string \<Rightarrow> string \<Rightarrow> 'rl"
  voucherMap :: "'rl \<Rightarrow> string"
  gridMap :: "'rl \<Rightarrow> string"
  exactMap :: "'rl \<Rightarrow> string"
  webMap :: "'rl \<Rightarrow> string"

datatype builder = NewVoucherRecordList | NewRecordList

datatype entry = VoucherMap | GridMap | ExactMap | WebMap

datatype call = Build builder | Draw entry

section \<open>The program\<close>

record mapData =
  TaxonName :: string
  MapType :: string
  RawCoords :: string
  SVGmap :: string

record svgMap =
  mapName :: string
  mapType :: string
  svgMap :: string

text \<open>\<open>fmt.Sprintln\<close> on strings: the operands separated by a space, then a line feed.
  The loggers have no prefix and no flags, so this is the line that \<open>Println\<close> writes.\<close>

fun Sprintln :: "string list \<Rightarrow> string" where
  "Sprintln [] = ''\<newline>''"
| "Sprintln [a] = a @ ''\<newline>''"
| "Sprintln (a # b # bs) = a @ '' '' @ Sprintln (b # bs)"

text \<open>What a call of \<open>mapSVG\<close> returns and does: the string returned, the calls into the
  rendering engine, and the lines written to \<open>errorLog\<close>.\<close>

record rendering =
  stringMap :: string
  calls :: "call list"
  errorLog :: "string list"

text \<open>Line 55: the first line of the raw coordinates, trimmed.\<close>

definition firstRecord :: "mapData \<Rightarrow> string" where
  "firstRecord data = TrimSpace (Split (RawCoords data) (CHR ''\<newline>'') ! 0)"

text \<open>Lines 75 to 86: the \<open>switch\<close> on the map type, with the entry point called and
  the text it leaves in \<open>mapBuffer\<close>. No case matches any other map type, and the buffer
  stays empty.\<close>

definition drawMap :: "'rl mapper \<Rightarrow> bool \<Rightarrow> string \<Rightarrow> 'rl \<Rightarrow> call list \<times> string" where
  "drawMap eng voucherPattern mapType' rl =
     (if mapType' = ''grid'' then
        (if voucherPattern then ([Draw VoucherMap], voucherMap eng rl)
         else ([Draw GridMap], gridMap eng rl))
      else if mapType' = ''plain'' then ([Draw ExactMap], exactMap eng rl)
      else if mapType' = ''web'' then ([Draw WebMap], webMap eng rl)
      else ([], []))"

text \<open>
  \<open>mapSVG\<close>. Line 54 allocates an empty record list with \<open>new\<close>, which runs no code
  of the engine; the list is replaced by the one a constructor returns, or never used when
  the function returns at line 72. The two patterns are matched first (lines 60 and 63),
  then the \<open>if\<close> chain picks the constructor or returns the message (lines 66 to 73).
\<close>

definition mapSVG :: "'rl mapper \<Rightarrow> mapData \<Rightarrow> rendering" where
  "mapSVG eng data =
     (let voucherPattern = MatchString voucherRegexp (firstRecord data);
          noVoucherPattern = MatchString noVoucherRegexp (firstRecord data)
      in case (if voucherPattern then
                 Some (Build NewVoucherRecordList,
                       newVoucherRecordList eng (RawCoords data) (TaxonName data))
               else if noVoucherPattern then
                 Some (Build NewRecordList,
                       newRecordList eng (RawCoords data) (TaxonName data))
               else None) of
           None \<Rightarrow>
             \<lparr>stringMap = ''I can't interpret these coordinates'',
              calls = [],
              errorLog = [Sprintln
                [''Coordinates contain an error in the first line and cannot be interpreted'',
                 firstRecord data]]\<rparr>
         | Some (built, rl) \<Rightarrow>
             (let (drawn, mapBuffer) = drawMap eng voucherPattern (MapType data) rl
              in \<lparr>stringMap = mapBuffer, calls = built # drawn, errorLog = []\<rparr>))"

subsection \<open>The handlers\<close>

text \<open>Of a request, the handlers read the method and the form values \<open>taxon\<close>,
  \<open>maptype\<close> and \<open>coordinates\<close> (\<open>FormValue\<close> gives the empty string for a missing
  one).\<close>

record request =
  Method :: string
  taxon :: string
  maptype :: string
  coordinates :: string

definition newMapData :: "request \<Rightarrow> mapData" where
  "newMapData r =
     \<lparr>TaxonName = taxon r,
      MapType = maptype r,
      RawCoords = TrimSpace (ReplaceAll (coordinates r) (CHR '' '') []),
      SVGmap = []\<rparr>"

text \<open>What \<open>mapAsFile\<close> sends: the headers it sets, the body it writes, and what it
  logs.\<close>

record response =
  header :: "(string \<times> string) list"
  body :: string
  logged :: "string list"

definition mapAsFile :: "svgMap \<Rightarrow> svgMap \<times> response" where
  "mapAsFile svm =
     (if svgMap svm = [] then
        (svm, \<lparr>header = [],
               body = ''There is no map in memory'',
               logged = [Sprintln
                 [''Attempt to access map from memory before a map is generated'']]\<rparr>)
      else
        (svm, \<lparr>header = [(''Content-Type'', ''image/svg+xml''),
                         (''Content-Disposition'', ''attachment; filename='' @ mapName svm)],
               body = svgMap svm,
               logged = []\<rparr>))"

text \<open>
  \<open>mapDisplay\<close> answers a form submission with a page built by the templates from the
  page title and the map data, and anything else with a redirection. The templates are
  files outside the program; the model keeps what is handed to them. \<open>strings.ToLower\<close>
  follows the Unicode case tables and is a parameter.
\<close>

datatype page = Page string mapData | Redirect string nat

definition mapDisplay ::
  "(string \<Rightarrow> string) \<Rightarrow> 'rl mapper \<Rightarrow> svgMap \<Rightarrow> request \<Rightarrow> svgMap \<times> page \<times> rendering" where
  "mapDisplay ToLower eng svm r =
     (if Method r = ''POST'' then
        (let data = newMapData r;
             pageTitle = ''Preview map for '' @ TaxonName data;
             svm1 = svm\<lparr>mapType := MapType data\<rparr>;
             svm2 = svm1\<lparr>mapName :=
                      ReplaceAll (ToLower (TaxonName data)) (CHR '' '') ''-'' @
                      ''.'' @ mapType svm1 @ ''.svg''\<rparr>;
             drawn = mapSVG eng data;
             svm3 = svm2\<lparr>svgMap := stringMap drawn\<rparr>;
             data' = data\<lparr>SVGmap := svgMap svm3\<rparr>
         in (svm3, Page pageTitle data', drawn))
      else (svm, Redirect ''/'' 301,
            \<lparr>stringMap = [], calls = [], errorLog = []\<rparr>))"

text \<open>\<open>main\<close> allocates one \<open>svgMap\<close>, all fields empty, and hands it to the two
  handlers; the other handlers have no access to it.\<close>

definition newSvgMap :: svgMap where
  "newSvgMap = \<lparr>mapName = [], mapType = [], svgMap = []\<rparr>"

datatype operation = Display request | Download

fun serve :: "(string \<Rightarrow> string) \<Rightarrow> 'rl mapper \<Rightarrow> svgMap \<Rightarrow> operation \<Rightarrow> svgMap" where
  "serve ToLower eng svm (Display r) = fst (mapDisplay ToLower eng svm r)"
| "serve ToLower eng svm Download = fst (mapAsFile svm)"

subsection \<open>Requests served at the same time\<close>




section \<open>The dispatch matrix of the specification\<close>

text \<open>
  The table of the specification's map dispatcher: the entry point for a format and a map
  style, or none where the table says "empty output". The table has no row for
  \<open>Invalid\<close>, where the dispatcher is not reached.
\<close>

fun dispatchTable :: "coordinateFormat \<Rightarrow> string \<Rightarrow> entry option" where
  "dispatchTable Voucher style =
     (if style = ''grid'' then Some VoucherMap
      else if style = ''plain'' then Some ExactMap
      else if style = ''web'' then Some WebMap
      else None)"
| "dispatchTable NoVoucher style =
     (if style = ''grid'' then Some GridMap
      else if style = ''plain'' then Some ExactMap
      else if style = ''web'' then Some WebMap
      else None)"
| "dispatchTable Invalid style = None"

text \<open>The engine's function behind each name.\<close>

fun invoke :: "'rl mapper \<Rightarrow> entry \<Rightarrow> 'rl \<Rightarrow> string" where
  "invoke eng VoucherMap = voucherMap eng"
| "invoke eng GridMap = gridMap eng"
| "invoke eng ExactMap = exactMap eng"
| "invoke eng WebMap = webMap eng"

fun construct :: "'rl mapper \<Rightarrow> builder \<Rightarrow> string \<Rightarrow> string \<Rightarrow> 'rl" where
  "construct eng NewVoucherRecordList = newVoucherRecordList eng"
| "construct eng NewRecordList = newRecordList eng"

text \<open>The record list builder of the specification: the constructor for a format.\<close>

fun builderFor :: "coordinateFormat \<Rightarrow> builder option" where
  "builderFor Voucher = Some NewVoucherRecordList"
| "builderFor NoVoucher = Some NewRecordList"
| "builderFor Invalid = None"

section \<open>The render cache of the specification\<close>

text \<open>The specification's \<open>load\<close> reads the slot through \<open>mapAsFile\<close>: \<open>Absent\<close> is the
  fixed answer without headers, \<open>Present\<close> the slot served as an attachment.\<close>

definition absentResponse :: response where
  "absentResponse =
     \<lparr>header = [],
      body = ''There is no map in memory'',
      logged = [''Attempt to access map from memory before a map is generated\<newline>'']\<rparr>"

definition attachment :: "svgMap \<Rightarrow> response" where
  "attachment m =
     \<lparr>header = [(''Content-Type'', ''image/svg+xml''),
                (''Content-Disposition'', ''attachment; filename='' @ mapName m)],
      body = svgMap m,
      logged = []\<rparr>"

definition load :: "svgMap \<Rightarrow> response" where
  "load svm = snd (mapAsFile svm)"

text \<open>The file name of the specification: the taxon name in lower case, each space
  replaced by a hyphen, a dot, the map style, and \<open>.svg\<close>.\<close>

definition fileName :: "(string \<Rightarrow> string) \<Rightarrow> string \<Rightarrow> string \<Rightarrow> string" where
  "fileName ToLower taxonName mapStyle =
     map (\<lambda>c. if c = CHR '' '' then CHR ''-'' else c) (ToLower taxonName) @
     ''.'' @ mapStyle @ ''.svg''"

section \<open>A sample environment\<close>

text \<open>
  Closed examples need an engine and a lower-casing function. The sample engine keeps
  the text and the taxon name as its record list and draws a fixed text for each entry
  point; \<open>asciiToLower\<close> is \<open>strings.ToLower\<close> on ASCII text.
\<close>

definition sampleMapper :: "(bool \<times> string \<times> string) mapper" where
  "sampleMapper =
     \<lparr>newVoucherRecordList = (\<lambda>raw name. (True, raw, name)),
      newRecordList = (\<lambda>raw name. (False, raw, name)),
      voucherMap = (\<lambda>rl. ''<svg>voucher grid</svg>''),
      gridMap = (\<lambda>rl. ''<svg>grid</svg>''),
      exactMap = (\<lambda>rl. ''<svg>exact</svg>''),
      webMap = (\<lambda>rl. ''<svg>web</svg>'')\<rparr>"

definition asciiToLower :: "string \<Rightarrow> string" where
  "asciiToLower s =
     map (\<lambda>c. case map_of (zip ''ABCDEFGHIJKLMNOPQRSTUVWXYZ'' ''abcdefghijklmnopqrstuvwxyz'') c of
                 None \<Rightarrow> c | Some l \<Rightarrow> l) s"

section \<open>The matcher and the grammar\<close>

lemma Split_first: "Split s sep ! 0 = takeWhile (\<lambda>c. c \<noteq> sep) s"
proof (cases "dropWhile (\<lambda>c. c \<noteq> sep) s")
  case Nil
  then have all: "takeWhile (\<lambda>c. c \<noteq> sep) s = s"
    by (simp add: dropWhile_eq_Nil_conv)
  show ?thesis
    by (subst Split.simps) (simp add: Nil all)
next
  case (Cons c rest)
  show ?thesis
    by (subst Split.simps) (simp add: Cons)
qed

lemma ReplaceAll_char: "ReplaceAll s old [new] = map (\<lambda>c. if c = old then new else c) s"
  by (induction s) auto

lemma rep_langrep:
  assumes "\<And>s. set (f s) = {t. \<exists>u\<in>L. s = u @ t}"
  shows "set (rep f lo hi s) = {t. \<exists>u\<in>langrep L lo hi. s = u @ t}"
proof (induction hi arbitrary: lo s)
  case 0
  show ?case by auto
next
  case (Suc hi)
  show ?case
    by (auto simp: Suc assms conc_def) (metis append.assoc)+
qed

lemma run_lang: "set (run r s) = {t. \<exists>u\<in>lang r. s = u @ t}"
proof (induction r arbitrary: s)
  case (Cat a b)
  show ?case
    by (auto simp: Cat conc_def) (metis append.assoc)+
next
  case (Rep a lo hi)
  show ?case by (simp add: rep_langrep [where L = "lang a"] Rep)
qed (auto split: list.splits)

lemma MatchString_lang: "MatchString r s \<longleftrightarrow> s \<in> lang r"
  by (simp add: MatchString_def run_lang)

lemma conc_char: "w \<in> conc {[c] | c. P c} B \<longleftrightarrow> (\<exists>c v. w = c # v \<and> P c \<and> v \<in> B)"
proof
  assume "w \<in> conc {[c] | c. P c} B"
  then show "\<exists>c v. w = c # v \<and> P c \<and> v \<in> B"
    by (auto simp: conc_def)
next
  assume "\<exists>c v. w = c # v \<and> P c \<and> v \<in> B"
  then obtain c v where "w = [c] @ v" "P c" "v \<in> B"
    by auto
  then show "w \<in> conc {[c] | c. P c} B"
    unfolding conc_def by blast
qed

lemma langrep_Digit: "langrep {[c] | c. isDigit c} lo hi = {ds. digits lo hi ds}"
proof (induction hi arbitrary: lo)
  case 0
  show ?case by (auto simp: digits_def)
next
  case (Suc hi)
  show ?case
  proof (rule set_eqI)
    fix ds
    show "ds \<in> langrep {[c] | c. isDigit c} lo (Suc hi) \<longleftrightarrow> ds \<in> {ds. digits lo (Suc hi) ds}"
      by (cases ds) (auto simp: Suc conc_char digits_def)
  qed
qed

lemma lang_sign: "lang (Opt (Lit (CHR ''-''))) = {sg. sign sg}"
  by (auto simp: sign_def)

lemma lang_fraction: "lang fractionRegexp = {f. fraction f}"
  by (auto simp: fractionRegexp_def seq_def fraction_def conc_def langrep_Digit)

lemma conc_Collect: "conc {u. P u} B = {w. \<exists>u v. w = u @ v \<and> P u \<and> v \<in> B}"
  by (auto simp: conc_def)

lemma conc_single: "conc {u} B = {w. \<exists>v. w = u @ v \<and> v \<in> B}"
  by (auto simp: conc_def)

lemma lang_noVoucher: "s \<in> lang noVoucherRegexp \<longleftrightarrow> plain_line s"
  unfolding noVoucherRegexp_def seq_def plain_line_def
  by (simp add: lang_sign lang_fraction langrep_Digit conc_Collect conc_single
        del: lang.simps(6)) blast

lemma conc_assoc: "conc (conc A B) C = conc A (conc B C)"
  unfolding conc_def by (auto, metis append.assoc, metis append.assoc)

lemma conc_Eps_left: "conc {[]} A = A"
  by (auto simp: conc_def)

lemma lang_seq_append: "lang (seq (rs @ rs')) = conc (lang (seq rs)) (lang (seq rs'))"
  by (induction rs) (simp_all add: seq_def conc_assoc conc_Eps_left)

lemma voucherRegexp_split:
  "voucherRegexp =
     seq ([Opt (Lit (CHR ''-'')), Rep Digit 2 2, fractionRegexp, Lit (CHR '',''),
           Rep Digit 3 3, fractionRegexp] @ [Lit (CHR '',''), OneOf ''01''])"
  by (simp add: voucherRegexp_def)

lemma lang_flag: "lang (seq [Lit (CHR '',''), OneOf ''01'']) = {'',0'', '',1''}"
  by (auto simp: seq_def conc_def)

lemma lang_voucher_plain:
  "s \<in> lang voucherRegexp \<longleftrightarrow> (\<exists>p. plain_line p \<and> (s = p @ '',0'' \<or> s = p @ '',1''))"
proof -
  have "lang voucherRegexp = conc (lang noVoucherRegexp) {'',0'', '',1''}"
    unfolding voucherRegexp_split lang_seq_append lang_flag
    by (simp add: noVoucherRegexp_def)
  then show ?thesis
    by (auto simp: conc_def lang_noVoucher)
qed

lemma voucher_line_plain:
  "voucher_line s \<longleftrightarrow> (\<exists>p. plain_line p \<and> (s = p @ '',0'' \<or> s = p @ '',1''))"
proof
  assume "voucher_line s"
  then obtain sg la lf lo lof fl where
    s: "s = sg @ la @ lf @ '','' @ lo @ lof @ '','' @ fl" and
    p: "sign sg" "digits 2 2 la" "fraction lf" "digits 3 3 lo" "fraction lof" and
    fl: "fl = ''0'' \<or> fl = ''1''"
    unfolding voucher_line_def by blast
  from p have "plain_line (sg @ la @ lf @ '','' @ lo @ lof)"
    unfolding plain_line_def by blast
  moreover from s fl have "s = (sg @ la @ lf @ '','' @ lo @ lof) @ '',0'' \<or>
      s = (sg @ la @ lf @ '','' @ lo @ lof) @ '',1''"
    by auto
  ultimately show "\<exists>p. plain_line p \<and> (s = p @ '',0'' \<or> s = p @ '',1'')"
    by blast
next
  assume "\<exists>p. plain_line p \<and> (s = p @ '',0'' \<or> s = p @ '',1'')"
  then obtain p where pl: "plain_line p" and s: "s = p @ '',0'' \<or> s = p @ '',1''"
    by blast
  from pl obtain sg la lf lo lof where
    p: "p = sg @ la @ lf @ '','' @ lo @ lof" and
    q: "sign sg" "digits 2 2 la" "fraction lf" "digits 3 3 lo" "fraction lof"
    unfolding plain_line_def by blast
  from s p have "s = sg @ la @ lf @ '','' @ lo @ lof @ '','' @ ''0'' \<or>
      s = sg @ la @ lf @ '','' @ lo @ lof @ '','' @ ''1''"
    by auto
  with q show "voucher_line s"
    unfolding voucher_line_def by blast
qed

lemma MatchString_noVoucher: "MatchString noVoucherRegexp s \<longleftrightarrow> plain_line s"
  by (simp only: MatchString_lang lang_noVoucher)

lemma MatchString_voucher: "MatchString voucherRegexp s \<longleftrightarrow> voucher_line s"
  by (simp only: MatchString_lang lang_voucher_plain voucher_line_plain)

subsection \<open>A line of either grammar is told by its commas\<close>

lemma isDigit_no_comma: "list_all isDigit ds \<Longrightarrow> count_list ds (CHR '','') = 0"
  by (induction ds) (auto simp: isDigit_def)

lemma digits_no_comma: "digits lo hi ds \<Longrightarrow> count_list ds (CHR '','') = 0"
  by (simp add: digits_def isDigit_no_comma)

lemma fraction_no_comma: "fraction f \<Longrightarrow> count_list f (CHR '','') = 0"
  by (auto simp: fraction_def dest: digits_no_comma)

lemma sign_no_comma: "sign sg \<Longrightarrow> count_list sg (CHR '','') = 0"
  by (auto simp: sign_def)

lemma plain_line_commas: "plain_line s \<Longrightarrow> count_list s (CHR '','') = 1"
  by (auto simp: plain_line_def digits_no_comma fraction_no_comma sign_no_comma)

lemma voucher_line_commas: "voucher_line s \<Longrightarrow> count_list s (CHR '','') = 2"
  by (auto simp: voucher_line_plain dest: plain_line_commas)

lemma not_both_grammars: "\<not> (voucher_line s \<and> plain_line s)"
  using plain_line_commas [of s] voucher_line_commas [of s] by auto

section \<open>Classification\<close>

text \<open>
  C1. For every first line, \<open>classify\<close> returns \<open>Voucher\<close> exactly when the line matches
  the voucher grammar, \<open>NoVoucher\<close> exactly when it matches the grammar without the flag
  field (and then not the voucher grammar), and \<open>Invalid\<close> when it matches neither.
\<close>

theorem classify_grammar:
  "classify s =
     (if voucher_line s then Voucher else if plain_line s then NoVoucher else Invalid)"
  by (simp add: classify_def MatchString_voucher MatchString_noVoucher)

theorem classify_grammar_witness:
  "voucher_line ''-42.12344,147.43321,1'' \<and>
   plain_line ''42.12344,147.43321'' \<and> \<not> voucher_line ''42.12344,147.43321'' \<and>
   \<not> voucher_line ''abc'' \<and> \<not> plain_line ''abc''"
proof -
  have "classify ''-42.12344,147.43321,1'' = Voucher"
    and "classify ''42.12344,147.43321'' = NoVoucher"
    and "classify ''abc'' = Invalid"
    by code_simp+
  then show ?thesis
    using classify_grammar [of "''-42.12344,147.43321,1''"]
      classify_grammar [of "''42.12344,147.43321''"] classify_grammar [of "''abc''"]
    by (simp split: if_splits)
qed

text \<open>
  C6. The voucher pattern is looked at before the no-voucher pattern, and no line matches
  both: a line that matches the voucher pattern is classified \<open>Voucher\<close>, never
  \<open>NoVoucher\<close>, and a line that matches the no-voucher pattern does not match the voucher
  pattern and is classified \<open>NoVoucher\<close>.
\<close>

theorem patterns_exclusive:
  "(MatchString voucherRegexp s \<longrightarrow> classify s = Voucher \<and> classify s \<noteq> NoVoucher) \<and>
   (MatchString noVoucherRegexp s \<longrightarrow>
      \<not> MatchString voucherRegexp s \<and> classify s = NoVoucher)"
  using not_both_grammars [of s]
  by (auto simp: classify_def MatchString_voucher MatchString_noVoucher)

theorem patterns_exclusive_witness:
  "MatchString voucherRegexp ''-42.12344,147.43321,1'' \<and>
   classify ''-42.12344,147.43321,1'' = Voucher \<and>
   MatchString noVoucherRegexp ''-42.12344,147.43321'' \<and>
   \<not> MatchString voucherRegexp ''-42.12344,147.43321'' \<and>
   classify ''-42.12344,147.43321'' = NoVoucher"
proof -
  have "MatchString voucherRegexp ''-42.12344,147.43321,1''"
    and "MatchString noVoucherRegexp ''-42.12344,147.43321''"
    by code_simp+
  then show ?thesis
    using patterns_exclusive [of "''-42.12344,147.43321,1''"]
      patterns_exclusive [of "''-42.12344,147.43321''"]
    by simp
qed

section \<open>Rendering\<close>

lemma classify_Voucher: "classify s = Voucher \<longleftrightarrow> MatchString voucherRegexp s"
  by (simp add: classify_def)

lemma classify_NoVoucher:
  "classify s = NoVoucher \<longleftrightarrow> \<not> MatchString voucherRegexp s \<and> MatchString noVoucherRegexp s"
  by (simp add: classify_def)

lemma classify_Invalid:
  "classify s = Invalid \<longleftrightarrow> \<not> MatchString voucherRegexp s \<and> \<not> MatchString noVoucherRegexp s"
  by (simp add: classify_def)

lemma mapSVG_rejected:
  assumes "classify (firstRecord data) = Invalid"
  shows "mapSVG eng data =
     \<lparr>stringMap = ''I can't interpret these coordinates'',
      calls = [],
      errorLog =
        [''Coordinates contain an error in the first line and cannot be interpreted '' @
         firstRecord data @ ''\<newline>'']\<rparr>"
  using assms by (simp add: mapSVG_def classify_Invalid)

text \<open>
  C2. For a first line of format \<open>Voucher\<close> or \<open>NoVoucher\<close>, \<open>mapSVG\<close> builds the record
  list with the constructor of the format and then calls the entry point that the
  dispatch matrix gives for the format and the map style, and no other: \<open>voucherMap\<close> for
  grid and \<open>Voucher\<close>, \<open>gridMap\<close> for grid and \<open>NoVoucher\<close>, \<open>exactMap\<close> for plain and
  \<open>webMap\<close> for web whatever the format; for any other style it calls none and returns
  the empty string.
\<close>

theorem dispatch_matrix:
  assumes "classify (firstRecord data) = format" and "builderFor format = Some b"
  shows "mapSVG eng data =
     (case dispatchTable format (MapType data) of
        None \<Rightarrow> \<lparr>stringMap = [], calls = [Build b], errorLog = []\<rparr>
      | Some e \<Rightarrow>
          \<lparr>stringMap = invoke eng e (construct eng b (RawCoords data) (TaxonName data)),
           calls = [Build b, Draw e],
           errorLog = []\<rparr>)"
proof (cases format)
  case Voucher
  with assms show ?thesis
    by (auto simp: mapSVG_def drawMap_def classify_Voucher)
next
  case NoVoucher
  with assms show ?thesis
    by (auto simp: mapSVG_def drawMap_def classify_NoVoucher)
next
  case Invalid
  with assms show ?thesis by simp
qed

theorem dispatch_matrix_witness:
  "classify (firstRecord
      \<lparr>TaxonName = ''Acacia dealbata'', MapType = ''grid'',
       RawCoords = ''-42.12344,147.43321,1\<newline>-41.34221,145.43442,0'', SVGmap = []\<rparr>) = Voucher \<and>
   builderFor Voucher = Some NewVoucherRecordList \<and>
   mapSVG sampleMapper
      \<lparr>TaxonName = ''Acacia dealbata'', MapType = ''grid'',
       RawCoords = ''-42.12344,147.43321,1\<newline>-41.34221,145.43442,0'', SVGmap = []\<rparr> =
     \<lparr>stringMap = ''<svg>voucher grid</svg>'',
      calls = [Build NewVoucherRecordList, Draw VoucherMap],
      errorLog = []\<rparr>"
proof -
  have c: "classify (firstRecord
      \<lparr>TaxonName = ''Acacia dealbata'', MapType = ''grid'',
       RawCoords = ''-42.12344,147.43321,1\<newline>-41.34221,145.43442,0'', SVGmap = []\<rparr>) = Voucher"
    by code_simp
  have b: "builderFor Voucher = Some NewVoucherRecordList"
    by simp
  show ?thesis
    using c dispatch_matrix [OF c b, of sampleMapper] by (simp add: sampleMapper_def)
qed

text \<open>
  C4. For every input whose first line matches neither pattern, \<open>mapSVG\<close> stops there:
  it calls neither constructor and no entry point of the engine, returns the fixed
  message, and writes one line to the error log that ends with the offending line.
\<close>

theorem invalid_is_terminal:
  assumes "classify (firstRecord data) = Invalid"
  shows "stringMap (mapSVG eng data) = ''I can't interpret these coordinates'' \<and>
         calls (mapSVG eng data) = [] \<and>
         errorLog (mapSVG eng data) =
           [''Coordinates contain an error in the first line and cannot be interpreted '' @
            firstRecord data @ ''\<newline>'']"
  using assms by (simp add: mapSVG_def classify_Invalid)

theorem invalid_is_terminal_witness:
  "classify (firstRecord
      \<lparr>TaxonName = ''Acacia dealbata'', MapType = ''grid'',
       RawCoords = ''not,coords\<newline>-41.34221,145.43442'', SVGmap = []\<rparr>) = Invalid \<and>
   stringMap (mapSVG sampleMapper
      \<lparr>TaxonName = ''Acacia dealbata'', MapType = ''grid'',
       RawCoords = ''not,coords\<newline>-41.34221,145.43442'', SVGmap = []\<rparr>) =
     ''I can't interpret these coordinates''"
proof -
  have c: "classify (firstRecord
      \<lparr>TaxonName = ''Acacia dealbata'', MapType = ''grid'',
       RawCoords = ''not,coords\<newline>-41.34221,145.43442'', SVGmap = []\<rparr>) = Invalid"
    by code_simp
  show ?thesis
    using c invalid_is_terminal [OF c, of sampleMapper] by simp
qed

section \<open>The handlers and the render cache\<close>

lemma mapDisplay_POST:
  assumes "Method r = ''POST''"
  shows "fst (mapDisplay ToLower eng svm r) =
     \<lparr>mapName = ReplaceAll (ToLower (taxon r)) (CHR '' '') ''-'' @ ''.'' @ maptype r @ ''.svg'',
      mapType = maptype r,
      svgMap = stringMap (mapSVG eng (newMapData r))\<rparr>"
  using assms by (simp add: mapDisplay_def Let_def newMapData_def)

lemma mapDisplay_other:
  assumes "Method r \<noteq> ''POST''"
  shows "fst (mapDisplay ToLower eng svm r) = svm"
  using assms by (simp add: mapDisplay_def)

lemma load_absent: "load svm = absentResponse \<longleftrightarrow> svgMap svm = []"
  by (simp add: load_def mapAsFile_def absentResponse_def)

lemma load_present: "svgMap svm \<noteq> [] \<Longrightarrow> load svm = attachment svm"
  by (simp add: load_def mapAsFile_def attachment_def)

lemma mapAsFile_slot: "fst (mapAsFile svm) = svm"
  by (simp add: mapAsFile_def)

lemma downloads_slot: "foldl (serve ToLower eng) svm (replicate n Download) = svm"
  by (induction n) (simp_all add: mapAsFile_slot)

text \<open>
  C8. After a form submission, the file name in the slot is the taxon name in lower case
  with each space replaced by a hyphen, followed by a dot, the map style and \<open>.svg\<close>;
  a download of a non-empty map names it in the \<open>Content-Disposition\<close> header.
\<close>

theorem derived_fileName:
  assumes "Method r = ''POST''"
  shows "mapName (fst (mapDisplay ToLower eng svm r)) =
           fileName ToLower (taxon r) (maptype r) \<and>
         (svgMap (fst (mapDisplay ToLower eng svm r)) \<noteq> [] \<longrightarrow>
            header (load (fst (mapDisplay ToLower eng svm r))) =
              [(''Content-Type'', ''image/svg+xml''),
               (''Content-Disposition'',
                ''attachment; filename='' @ fileName ToLower (taxon r) (maptype r))])"
  using assms
  by (simp add: mapDisplay_POST load_present attachment_def fileName_def ReplaceAll_char)

theorem derived_fileName_witness:
  "Method \<lparr>Method = ''POST'', taxon = ''Acacia dealbata'', maptype = ''plain'',
           coordinates = ''-42.12344,147.43321\<newline>-41.34221,145.43442''\<rparr> = ''POST'' \<and>
   mapName (fst (mapDisplay asciiToLower sampleMapper newSvgMap
      \<lparr>Method = ''POST'', taxon = ''Acacia dealbata'', maptype = ''plain'',
       coordinates = ''-42.12344,147.43321\<newline>-41.34221,145.43442''\<rparr>)) =
     ''acacia-dealbata.plain.svg''"
proof -
  have m: "Method \<lparr>Method = ''POST'', taxon = ''Acacia dealbata'', maptype = ''plain'',
           coordinates = ''-42.12344,147.43321\<newline>-41.34221,145.43442''\<rparr> = ''POST''"
    by simp
  show ?thesis
    using derived_fileName [OF m, of asciiToLower sampleMapper newSvgMap]
    by (simp add: fileName_def asciiToLower_def)
qed

text \<open>
  C3, as the program has it. A download before any form submission gets the fixed answer
  \<open>There is no map in memory\<close>. A form submission stores a map made of the request alone
  (file name, map type, svg body); downloads leave the slot as it is, and a download
  serves the stored svg body under the stored file name when that body is not empty. A
  stored map whose svg body is empty gets the fixed answer, as if nothing were stored.
\<close>

theorem cache_load_store:
  "load newSvgMap = absentResponse \<and>
   (Method r = ''POST'' \<longrightarrow>
      fst (mapDisplay ToLower eng svm r) =
        \<lparr>mapName = fileName ToLower (taxon r) (maptype r),
         mapType = maptype r,
         svgMap = stringMap (mapSVG eng (newMapData r))\<rparr>) \<and>
   foldl (serve ToLower eng) m (replicate n Download) = m \<and>
   (svgMap m \<noteq> [] \<longrightarrow> load m = attachment m) \<and>
   (svgMap m = [] \<longrightarrow> load m = absentResponse)"
  by (simp add: load_absent load_present downloads_slot mapDisplay_POST newSvgMap_def
        fileName_def ReplaceAll_char)

theorem cache_load_store_witness:
  "fst (mapDisplay asciiToLower sampleMapper newSvgMap
      \<lparr>Method = ''POST'', taxon = ''Acacia dealbata'', maptype = ''plain'',
       coordinates = ''-42.12344,147.43321\<newline>-41.34221,145.43442''\<rparr>) =
     \<lparr>mapName = ''acacia-dealbata.plain.svg'', mapType = ''plain'',
      svgMap = ''<svg>exact</svg>''\<rparr> \<and>
   load \<lparr>mapName = ''acacia-dealbata.plain.svg'', mapType = ''plain'',
         svgMap = ''<svg>exact</svg>''\<rparr> =
     \<lparr>header = [(''Content-Type'', ''image/svg+xml''),
                (''Content-Disposition'', ''attachment; filename=acacia-dealbata.plain.svg'')],
      body = ''<svg>exact</svg>'',
      logged = []\<rparr>"
proof -
  have s: "stringMap (mapSVG sampleMapper (newMapData
      \<lparr>Method = ''POST'', taxon = ''Acacia dealbata'', maptype = ''plain'',
       coordinates = ''-42.12344,147.43321\<newline>-41.34221,145.43442''\<rparr>)) = ''<svg>exact</svg>''"
    by code_simp
  show ?thesis
    using cache_load_store [of
        "\<lparr>Method = ''POST'', taxon = ''Acacia dealbata'', maptype = ''plain'',
          coordinates = ''-42.12344,147.43321\<newline>-41.34221,145.43442''\<rparr>"
        asciiToLower sampleMapper newSvgMap
        "\<lparr>mapName = ''acacia-dealbata.plain.svg'', mapType = ''plain'',
          svgMap = ''<svg>exact</svg>''\<rparr>" 0]
    by (simp add: s fileName_def asciiToLower_def attachment_def)
qed

text \<open>A form submission with a valid first line and the map style \<open>pie\<close> stores a map
  with the file name \<open>acacia-dealbata.pie.svg\<close> and an empty svg body; the download that
  follows is answered as if there were no map.\<close>

theorem cache_load_store_counterexample:
  "fst (mapDisplay asciiToLower sampleMapper newSvgMap
      \<lparr>Method = ''POST'', taxon = ''Acacia dealbata'', maptype = ''pie'',
       coordinates = ''-42.12344,147.43321''\<rparr>) =
     \<lparr>mapName = ''acacia-dealbata.pie.svg'', mapType = ''pie'', svgMap = []\<rparr> \<and>
   load \<lparr>mapName = ''acacia-dealbata.pie.svg'', mapType = ''pie'', svgMap = []\<rparr> =
     absentResponse \<and>
   load \<lparr>mapName = ''acacia-dealbata.pie.svg'', mapType = ''pie'', svgMap = []\<rparr> \<noteq>
     attachment \<lparr>mapName = ''acacia-dealbata.pie.svg'', mapType = ''pie'', svgMap = []\<rparr>"
proof -
  have s: "stringMap (mapSVG sampleMapper (newMapData
      \<lparr>Method = ''POST'', taxon = ''Acacia dealbata'', maptype = ''pie'',
       coordinates = ''-42.12344,147.43321''\<rparr>)) = []"
    by code_simp
  show ?thesis
    by (simp add: mapDisplay_POST s ReplaceAll_char asciiToLower_def load_def mapAsFile_def
          absentResponse_def attachment_def)
qed

text \<open>
  C5, as the program has it. A display request whose first line matches neither pattern
  leaves the slot as it was only when it is not a form submission. A form submission
  overwrites all three fields whatever they held: the map type with the requested style,
  the file name with the name derived from the request, the svg body with the fixed
  message.
\<close>

theorem invalid_display_overwrites:
  assumes "classify (firstRecord (newMapData r)) = Invalid"
  shows "fst (mapDisplay ToLower eng svm r) =
     (if Method r = ''POST'' then
        \<lparr>mapName = fileName ToLower (taxon r) (maptype r),
         mapType = maptype r,
         svgMap = ''I can't interpret these coordinates''\<rparr>
      else svm)"
  using assms
  by (simp add: mapDisplay_POST mapDisplay_other mapSVG_rejected fileName_def ReplaceAll_char)

theorem invalid_display_overwrites_witness:
  "classify (firstRecord (newMapData
      \<lparr>Method = ''POST'', taxon = ''Acacia dealbata'', maptype = ''web'',
       coordinates = ''not,coords''\<rparr>)) = Invalid \<and>
   fst (mapDisplay asciiToLower sampleMapper
      \<lparr>mapName = ''old.grid.svg'', mapType = ''grid'', svgMap = ''<svg>old</svg>''\<rparr>
      \<lparr>Method = ''POST'', taxon = ''Acacia dealbata'', maptype = ''web'',
       coordinates = ''not,coords''\<rparr>) =
     \<lparr>mapName = ''acacia-dealbata.web.svg'', mapType = ''web'',
      svgMap = ''I can't interpret these coordinates''\<rparr>"
proof -
  have c: "classify (firstRecord (newMapData
      \<lparr>Method = ''POST'', taxon = ''Acacia dealbata'', maptype = ''web'',
       coordinates = ''not,coords''\<rparr>)) = Invalid"
    by code_simp
  show ?thesis
    using c invalid_display_overwrites [OF c, of asciiToLower sampleMapper
        "\<lparr>mapName = ''old.grid.svg'', mapType = ''grid'', svgMap = ''<svg>old</svg>''\<rparr>"]
    by (simp add: fileName_def asciiToLower_def)
qed

text \<open>The slot holds \<open>old.grid.svg\<close>; a form submission with the first line
  \<open>not,coords\<close> changes every field of it.\<close>

theorem invalid_display_counterexample:
  "classify (firstRecord (newMapData
      \<lparr>Method = ''POST'', taxon = ''Acacia dealbata'', maptype = ''web'',
       coordinates = ''not,coords''\<rparr>)) = Invalid \<and>
   fst (mapDisplay asciiToLower sampleMapper
      \<lparr>mapName = ''old.grid.svg'', mapType = ''grid'', svgMap = ''<svg>old</svg>''\<rparr>
      \<lparr>Method = ''POST'', taxon = ''Acacia dealbata'', maptype = ''web'',
       coordinates = ''not,coords''\<rparr>) \<noteq>
     \<lparr>mapName = ''old.grid.svg'', mapType = ''grid'', svgMap = ''<svg>old</svg>''\<rparr>"
proof -
  have c: "classify (firstRecord (newMapData
      \<lparr>Method = ''POST'', taxon = ''Acacia dealbata'', maptype = ''web'',
       coordinates = ''not,coords''\<rparr>)) = Invalid"
    by code_simp
  show ?thesis
    using c by (simp add: mapDisplay_POST mapSVG_rejected)
qed

text \<open>
  C10. After a form submission whose first line matches neither pattern, the svg body in
  the slot is the message \<open>I can't interpret these coordinates\<close>, and the download that
  follows serves that text as an SVG attachment under the derived file name, not the
  answer that there is no map.
\<close>

theorem invalid_message_served:
  assumes "Method r = ''POST''" and "classify (firstRecord (newMapData r)) = Invalid"
  shows "svgMap (fst (mapDisplay ToLower eng svm r)) = ''I can't interpret these coordinates'' \<and>
         load (fst (mapDisplay ToLower eng svm r)) =
           \<lparr>header = [(''Content-Type'', ''image/svg+xml''),
                      (''Content-Disposition'',
                       ''attachment; filename='' @ fileName ToLower (taxon r) (maptype r))],
            body = ''I can't interpret these coordinates'',
            logged = []\<rparr> \<and>
         load (fst (mapDisplay ToLower eng svm r)) \<noteq> absentResponse"
  using assms
  by (simp add: mapDisplay_POST mapSVG_rejected load_present attachment_def
        absentResponse_def fileName_def ReplaceAll_char)

theorem invalid_message_served_witness:
  "Method \<lparr>Method = ''POST'', taxon = ''Acacia dealbata'', maptype = ''grid'',
           coordinates = ''42.5,14.7''\<rparr> = ''POST'' \<and>
   classify (firstRecord (newMapData
      \<lparr>Method = ''POST'', taxon = ''Acacia dealbata'', maptype = ''grid'',
       coordinates = ''42.5,14.7''\<rparr>)) = Invalid \<and>
   load (fst (mapDisplay asciiToLower sampleMapper newSvgMap
      \<lparr>Method = ''POST'', taxon = ''Acacia dealbata'', maptype = ''grid'',
       coordinates = ''42.5,14.7''\<rparr>)) =
     \<lparr>header = [(''Content-Type'', ''image/svg+xml''),
                (''Content-Disposition'', ''attachment; filename=acacia-dealbata.grid.svg'')],
      body = ''I can't interpret these coordinates'',
      logged = []\<rparr>"
proof -
  have m: "Method \<lparr>Method = ''POST'', taxon = ''Acacia dealbata'', maptype = ''grid'',
           coordinates = ''42.5,14.7''\<rparr> = ''POST''"
    by simp
  have c: "classify (firstRecord (newMapData
      \<lparr>Method = ''POST'', taxon = ''Acacia dealbata'', maptype = ''grid'',
       coordinates = ''42.5,14.7''\<rparr>)) = Invalid"
    by code_simp
  show ?thesis
    using c invalid_message_served [OF m c, of asciiToLower sampleMapper newSvgMap]
    by (simp add: fileName_def asciiToLower_def)
qed

lemma serve_present:
  assumes "svgMap svm \<noteq> []"
    and "\<And>r. op = Display r \<Longrightarrow> Method r = ''POST'' \<Longrightarrow>
           stringMap (mapSVG eng (newMapData r)) \<noteq> []"
  shows "svgMap (serve ToLower eng svm op) \<noteq> []"
proof (cases op)
  case (Display r)
  show ?thesis
  proof (cases "Method r = ''POST''")
    case True
    with Display assms(2) show ?thesis
      by (simp add: mapDisplay_POST)
  next
    case False
    with Display assms(1) show ?thesis
      by (simp add: mapDisplay_other)
  qed
next
  case Download
  with assms(1) show ?thesis
    by (simp add: mapAsFile_slot)
qed

lemma run_present:
  assumes "svgMap svm \<noteq> []"
    and "\<And>r. Display r \<in> set ops \<Longrightarrow> Method r = ''POST'' \<Longrightarrow>
           stringMap (mapSVG eng (newMapData r)) \<noteq> []"
  shows "svgMap (foldl (serve ToLower eng) svm ops) \<noteq> []"
  using assms
proof (induction ops arbitrary: svm)
  case Nil
  then show ?case by simp
next
  case (Cons op ops)
  have "svgMap (serve ToLower eng svm op) \<noteq> []"
    using Cons.prems by (intro serve_present) auto
  then have "svgMap (foldl (serve ToLower eng) (serve ToLower eng svm op) ops) \<noteq> []"
    using Cons.prems by (intro Cons.IH) auto
  then show ?case by simp
qed

text \<open>
  C7, as the program has it. The slot has no operation that clears it: a download leaves
  it unchanged and a form submission replaces it. A download is answered with the fixed
  answer exactly when the svg body in the slot is empty. So once a non-empty svg body is
  in the slot, no sequence of downloads and of display requests whose form submissions
  produce a non-empty svg body brings the fixed answer back.
\<close>

theorem present_is_kept:
  assumes "svgMap svm \<noteq> []"
    and "\<forall>r. Display r \<in> set ops \<and> Method r = ''POST'' \<longrightarrow>
           stringMap (mapSVG eng (newMapData r)) \<noteq> []"
  shows "load (foldl (serve ToLower eng) svm ops) \<noteq> absentResponse \<and>
         load (foldl (serve ToLower eng) svm ops) =
           attachment (foldl (serve ToLower eng) svm ops)"
proof -
  have stored: "svgMap (foldl (serve ToLower eng) svm ops) \<noteq> []"
    using assms by (intro run_present) auto
  then have "load (foldl (serve ToLower eng) svm ops) \<noteq> absentResponse"
    by (simp add: load_absent)
  moreover from stored have
    "load (foldl (serve ToLower eng) svm ops) = attachment (foldl (serve ToLower eng) svm ops)"
    by (rule load_present)
  ultimately show ?thesis
    by (rule conjI)
qed

theorem present_is_kept_witness:
  "svgMap \<lparr>mapName = ''old.grid.svg'', mapType = ''grid'', svgMap = ''<svg>old</svg>''\<rparr> \<noteq> [] \<and>
   stringMap (mapSVG sampleMapper (newMapData
      \<lparr>Method = ''POST'', taxon = ''Acacia dealbata'', maptype = ''web'',
       coordinates = ''-42.12344,147.43321''\<rparr>)) = ''<svg>web</svg>'' \<and>
   load (foldl (serve asciiToLower sampleMapper)
      \<lparr>mapName = ''old.grid.svg'', mapType = ''grid'', svgMap = ''<svg>old</svg>''\<rparr>
      [Download,
       Display \<lparr>Method = ''POST'', taxon = ''Acacia dealbata'', maptype = ''web'',
                coordinates = ''-42.12344,147.43321''\<rparr>,
       Download]) \<noteq> absentResponse"
proof -
  have s: "stringMap (mapSVG sampleMapper (newMapData
      \<lparr>Method = ''POST'', taxon = ''Acacia dealbata'', maptype = ''web'',
       coordinates = ''-42.12344,147.43321''\<rparr>)) = ''<svg>web</svg>''"
    by code_simp
  have a: "svgMap \<lparr>mapName = ''old.grid.svg'', mapType = ''grid'',
                   svgMap = ''<svg>old</svg>''\<rparr> \<noteq> []"
    by simp
  have b: "\<forall>r. Display r \<in> set
           [Download,
            Display \<lparr>Method = ''POST'', taxon = ''Acacia dealbata'', maptype = ''web'',
                     coordinates = ''-42.12344,147.43321''\<rparr>,
            Download] \<and> Method r = ''POST'' \<longrightarrow>
        stringMap (mapSVG sampleMapper (newMapData r)) \<noteq> []"
    using s by auto
  show ?thesis
    using a s present_is_kept [OF a b, of asciiToLower] by blast
qed

text \<open>Starting from the empty slot, a form submission with the style \<open>grid\<close> stores a
  map, which a download serves; a second one with a valid first line and no map style
  stores an empty svg body, and the download that follows gets the fixed answer again.\<close>

theorem present_is_kept_counterexample:
  "load (foldl (serve asciiToLower sampleMapper) newSvgMap
      [Display \<lparr>Method = ''POST'', taxon = ''Acacia dealbata'', maptype = ''grid'',
                coordinates = ''-42.12344,147.43321''\<rparr>]) =
     \<lparr>header = [(''Content-Type'', ''image/svg+xml''),
                (''Content-Disposition'', ''attachment; filename=acacia-dealbata.grid.svg'')],
      body = ''<svg>grid</svg>'',
      logged = []\<rparr> \<and>
   load (foldl (serve asciiToLower sampleMapper) newSvgMap
      [Display \<lparr>Method = ''POST'', taxon = ''Acacia dealbata'', maptype = ''grid'',
                coordinates = ''-42.12344,147.43321''\<rparr>,
       Display \<lparr>Method = ''POST'', taxon = ''Acacia dealbata'', maptype = [],
                coordinates = ''-42.12344,147.43321''\<rparr>]) = absentResponse"
proof -
  have s1: "stringMap (mapSVG sampleMapper (newMapData
      \<lparr>Method = ''POST'', taxon = ''Acacia dealbata'', maptype = ''grid'',
       coordinates = ''-42.12344,147.43321''\<rparr>)) = ''<svg>grid</svg>''"
    by code_simp
  have s2: "stringMap (mapSVG sampleMapper (newMapData
      \<lparr>Method = ''POST'', taxon = ''Acacia dealbata'', maptype = [],
       coordinates = ''-42.12344,147.43321''\<rparr>)) = []"
    by code_simp
  show ?thesis
    by (simp add: mapDisplay_POST load_absent load_present attachment_def s1 s2
          ReplaceAll_char asciiToLower_def)
qed

section \<open>The slot under requests served at the same time\<close>








end
